theory Spec2Isabelle
  imports Main "HOL-Library.AList"
begin

section \<open>JavaScript values\<close>

text \<open>
  The wallet client is JavaScript: every payload it receives is parsed JSON, and the
  client reads, adds and deletes properties of those objects. \<open>jsval\<close> is the value
  universe of the model: the JSON values, \<open>undefined\<close> (what a missing property reads
  as) and \<open>NaN\<close> (what \<open>parseInt\<close> and arithmetic produce on non-numbers).

  Numbers are the integer-valued ones, as unbounded \<open>int\<close>: balances, amounts, fees,
  counts, pages and limits of the node API are integers. Fractions, infinities, the
  negative zero and rounding above \<open>2^53\<close> are outside the model. Strings are byte
  lists, so the text operations are exact on ASCII.
\<close>

datatype jsval =
    JUndefined
  | JNull
  | JBool bool
  | JNum int
  | JNaN
  | JStr string
  | JArr "jsval list"
  | JObj "(string \<times> jsval) list"

type_synonym props = "(string \<times> jsval) list"

text \<open>
  What a call can end with instead of a value: a \<open>TypeError\<close> raised by the language
  (reading a property of \<open>null\<close>/\<open>undefined\<close>, calling what is not a function,
  assigning a property to a primitive in a strict-mode module), the rejection of an
  awaited promise carrying its error value, and \<open>Unmodelled\<close>, where JavaScript goes
  on with a value the model has no constructor for (an array carrying named
  properties).
\<close>

datatype failure = TypeError | Rejected jsval | Unmodelled

definition and_then :: "failure + 'a \<Rightarrow> ('a \<Rightarrow> failure + 'b) \<Rightarrow> failure + 'b" where
  "and_then r f = (case r of Inl e \<Rightarrow> Inl e | Inr v \<Rightarrow> f v)"

fun map_result :: "('a \<Rightarrow> failure + 'b) \<Rightarrow> 'a list \<Rightarrow> failure + 'b list" where
  "map_result f [] = Inr []"
| "map_result f (x # xs) =
     (case f x of
        Inl e \<Rightarrow> Inl e
      | Inr y \<Rightarrow> (case map_result f xs of Inl e \<Rightarrow> Inl e | Inr ys \<Rightarrow> Inr (y # ys)))"

subsection \<open>Truthiness and strict equality\<close>

fun truthy :: "jsval \<Rightarrow> bool" where
  "truthy JUndefined = False"
| "truthy JNull = False"
| "truthy (JBool b) = b"
| "truthy (JNum n) = (n \<noteq> 0)"
| "truthy JNaN = False"
| "truthy (JStr s) = (s \<noteq> [])"
| "truthy (JArr xs) = True"
| "truthy (JObj ps) = True"

text \<open>
  \<open>a === b\<close>. Objects and arrays are equal only to themselves (by identity); every
  \<open>===\<close> and \<open>!==\<close> of the client has a primitive on its right (a number literal,
  \<open>null\<close>, the address string), so an object or array operand makes it false.
\<close>

fun js_strict_eq :: "jsval \<Rightarrow> jsval \<Rightarrow> bool" where
  "js_strict_eq JNaN b = False"
| "js_strict_eq a JNaN = False"
| "js_strict_eq (JArr xs) b = False"
| "js_strict_eq a (JArr ys) = False"
| "js_strict_eq (JObj ps) b = False"
| "js_strict_eq a (JObj qs) = False"
| "js_strict_eq a b = (a = b)"

subsection \<open>Decimal digits\<close>

definition digit_char :: "nat \<Rightarrow> char" where
  "digit_char d = ''0123456789'' ! (d mod 10)"

fun show_nat :: "nat \<Rightarrow> string" where
  "show_nat n = (if n < 10 then [digit_char n] else show_nat (n div 10) @ [digit_char (n mod 10)])"

declare show_nat.simps [simp del]

definition show_int :: "int \<Rightarrow> string" where
  "show_int i = (if i < 0 then CHR ''-'' # show_nat (nat (- i)) else show_nat (nat i))"

subsection \<open>ToString\<close>

fun join :: "string \<Rightarrow> string list \<Rightarrow> string" where
  "join sep [] = []"
| "join sep [s] = s"
| "join sep (s # t # ts) = s @ sep @ join sep (t # ts)"

text \<open>
  \<open>String(v)\<close>, as template literals, \<open>+\<close> and \<open>parseInt\<close> apply it. An array joins its
  elements with commas, \<open>null\<close> and \<open>undefined\<close> elements as empty strings; a plain
  object is \<open>[object Object]\<close>. Integers print in full decimal (JavaScript switches to
  exponent notation from \<open>10^21\<close> on).
\<close>

fun js_to_string :: "jsval \<Rightarrow> string" where
  "js_to_string JUndefined = ''undefined''"
| "js_to_string JNull = ''null''"
| "js_to_string (JBool b) = (if b then ''true'' else ''false'')"
| "js_to_string (JNum n) = show_int n"
| "js_to_string JNaN = ''NaN''"
| "js_to_string (JStr s) = s"
| "js_to_string (JArr xs) =
     join '','' (map (\<lambda>v. case v of JUndefined \<Rightarrow> [] | JNull \<Rightarrow> [] | _ \<Rightarrow> js_to_string v) xs)"
| "js_to_string (JObj ps) = ''[object Object]''"

subsection \<open>Reading digits\<close>

definition is_space :: "char \<Rightarrow> bool" where
  "is_space c = (of_char c \<in> {9, 10, 11, 12, 13, 32 :: nat})"

definition digit_of :: "nat \<Rightarrow> char \<Rightarrow> nat option" where
  "digit_of radix c =
     (let n = (of_char c :: nat);
          d = (if 48 \<le> n \<and> n \<le> 57 then Some (n - 48)
               else if 97 \<le> n \<and> n \<le> 122 then Some (n - 87)
               else if 65 \<le> n \<and> n \<le> 90 then Some (n - 55)
               else None)
      in case d of None \<Rightarrow> None | Some v \<Rightarrow> if v < radix then Some v else None)"

definition is_digit :: "nat \<Rightarrow> char \<Rightarrow> bool" where
  "is_digit radix c = (digit_of radix c \<noteq> None)"

definition digits_value :: "nat \<Rightarrow> string \<Rightarrow> int" where
  "digits_value radix ds =
     foldl (\<lambda>a c. a * int radix + (case digit_of radix c of None \<Rightarrow> 0 | Some d \<Rightarrow> int d)) 0 ds"


subsection \<open>parseInt\<close>

text \<open>
  \<open>parseInt(v)\<close> with no radix: the argument is converted to a string, leading white
  space is dropped, then an optional sign, then an optional \<open>0x\<close>/\<open>0X\<close> (which makes the
  radix 16); the longest run of digits that follows is the value, and \<open>NaN\<close> when that
  run is empty.
\<close>

definition strip_sign :: "string \<Rightarrow> bool \<times> string" where
  "strip_sign s =
     (case s of
        [] \<Rightarrow> (False, [])
      | c # cs \<Rightarrow> if c = CHR ''-'' then (True, cs) else if c = CHR ''+'' then (False, cs) else (False, s))"

definition strip_hex :: "string \<Rightarrow> nat \<times> string" where
  "strip_hex s =
     (case s of
        a # b # cs \<Rightarrow> if a = CHR ''0'' \<and> (b = CHR ''x'' \<or> b = CHR ''X'') then (16, cs) else (10, s)
      | _ \<Rightarrow> (10, s))"

definition parse_int_string :: "string \<Rightarrow> jsval" where
  "parse_int_string s =
     (let (neg, s1) = strip_sign (dropWhile is_space s);
          (radix, s2) = strip_hex s1;
          z = takeWhile (is_digit radix) s2
      in if z = [] then JNaN
         else JNum (if neg then - digits_value radix z else digits_value radix z))"

definition parseInt :: "jsval \<Rightarrow> jsval" where
  "parseInt v = parse_int_string (js_to_string v)"


subsection \<open>ToNumber and arithmetic\<close>

text \<open>
  \<open>Number(v)\<close>, with \<open>None\<close> for \<open>NaN\<close>. A string is trimmed of white space on both
  sides; the empty string is 0; a decimal integer with an optional sign, or an unsigned
  \<open>0x\<close>, \<open>0o\<close> or \<open>0b\<close> integer, is its value. The other numeric literals of JavaScript
  (with a fraction, an exponent, \<open>Infinity\<close>) denote numbers outside the integers of
  this model and read as \<open>NaN\<close> here, as every other string does.
\<close>

definition trim :: "string \<Rightarrow> string" where
  "trim s = rev (dropWhile is_space (rev (dropWhile is_space s)))"

definition all_digits :: "nat \<Rightarrow> string \<Rightarrow> int option" where
  "all_digits radix s =
     (if s \<noteq> [] \<and> list_all (is_digit radix) s then Some (digits_value radix s) else None)"

definition string_to_number :: "string \<Rightarrow> int option" where
  "string_to_number s =
     (let t = trim s in
      if t = [] then Some 0
      else case t of
        a # b # cs \<Rightarrow>
          if a = CHR ''0'' \<and> (b = CHR ''x'' \<or> b = CHR ''X'') then all_digits 16 cs
          else if a = CHR ''0'' \<and> (b = CHR ''o'' \<or> b = CHR ''O'') then all_digits 8 cs
          else if a = CHR ''0'' \<and> (b = CHR ''b'' \<or> b = CHR ''B'') then all_digits 2 cs
          else (let (neg, u) = strip_sign t in
                case all_digits 10 u of None \<Rightarrow> None | Some n \<Rightarrow> Some (if neg then - n else n))
      | _ \<Rightarrow> all_digits 10 t)"

fun to_number :: "jsval \<Rightarrow> int option" where
  "to_number JUndefined = None"
| "to_number JNull = Some 0"
| "to_number (JBool b) = Some (if b then 1 else 0)"
| "to_number (JNum n) = Some n"
| "to_number JNaN = None"
| "to_number (JStr s) = string_to_number s"
| "to_number (JArr xs) = string_to_number (js_to_string (JArr xs))"
| "to_number (JObj ps) = string_to_number (js_to_string (JObj ps))"

definition of_number :: "int option \<Rightarrow> jsval" where
  "of_number r = (case r of None \<Rightarrow> JNaN | Some n \<Rightarrow> JNum n)"

text \<open>\<open>a - b\<close> and \<open>a * b\<close>: both operands go through ToNumber, and \<open>NaN\<close> absorbs.\<close>

definition js_sub :: "jsval \<Rightarrow> jsval \<Rightarrow> jsval" where
  "js_sub a b =
     (case (to_number a, to_number b) of (Some x, Some y) \<Rightarrow> JNum (x - y) | _ \<Rightarrow> JNaN)"

definition js_mul :: "jsval \<Rightarrow> jsval \<Rightarrow> jsval" where
  "js_mul a b =
     (case (to_number a, to_number b) of (Some x, Some y) \<Rightarrow> JNum (x * y) | _ \<Rightarrow> JNaN)"

text \<open>
  \<open>a + b\<close>: arrays and objects first become their strings (ToPrimitive); if either
  operand is then a string the result is the concatenation of both as strings, and
  otherwise the sum of both as numbers.
\<close>

fun to_primitive :: "jsval \<Rightarrow> jsval" where
  "to_primitive (JArr xs) = JStr (js_to_string (JArr xs))"
| "to_primitive (JObj ps) = JStr (js_to_string (JObj ps))"
| "to_primitive v = v"

fun is_string :: "jsval \<Rightarrow> bool" where
  "is_string (JStr s) = True"
| "is_string v = False"

definition js_add :: "jsval \<Rightarrow> jsval \<Rightarrow> jsval" where
  "js_add a b =
     (let p = to_primitive a; q = to_primitive b in
      if is_string p \<or> is_string q then JStr (js_to_string p @ js_to_string q)
      else case (to_number p, to_number q) of (Some x, Some y) \<Rightarrow> JNum (x + y) | _ \<Rightarrow> JNaN)"

subsection \<open>Properties\<close>

text \<open>
  An object is the list of its own properties, in insertion order. A missing property
  reads as \<open>undefined\<close>; assignment replaces the value of an existing key in place and
  appends a new one; \<open>delete\<close> removes the key.
\<close>

definition prop_get :: "props \<Rightarrow> string \<Rightarrow> jsval" where
  "prop_get ps k = (case map_of ps k of None \<Rightarrow> JUndefined | Some v \<Rightarrow> v)"

definition has_key :: "props \<Rightarrow> string \<Rightarrow> bool" where
  "has_key ps k = (map_of ps k \<noteq> None)"

definition index_props :: "jsval list \<Rightarrow> props" where
  "index_props xs = zip (map show_nat [0 ..< length xs]) xs"

text \<open>
  \<open>v.k\<close> for a data property \<open>k\<close>. Reading from \<open>null\<close> or \<open>undefined\<close> throws; an
  array or a string has its \<open>length\<close> and its indices; any other primitive has no
  data property. (Methods inherited from the prototypes are not data and are modelled
  where the client calls them.)
\<close>

fun js_get :: "jsval \<Rightarrow> string \<Rightarrow> failure + jsval" where
  "js_get JUndefined k = Inl TypeError"
| "js_get JNull k = Inl TypeError"
| "js_get (JObj ps) k = Inr (prop_get ps k)"
| "js_get (JArr xs) k =
     Inr (if k = ''length'' then JNum (int (length xs)) else prop_get (index_props xs) k)"
| "js_get (JStr s) k =
     Inr (if k = ''length'' then JNum (int (length s))
          else prop_get (index_props (map (\<lambda>c. JStr [c]) s)) k)"
| "js_get v k = Inr JUndefined"

text \<open>
  \<open>v.k = x\<close> in a module (strict mode): it throws on \<open>null\<close>, \<open>undefined\<close> and on
  every primitive. On an array JavaScript stores a named property beside the elements,
  which \<open>jsval\<close> cannot hold.
\<close>

fun js_set :: "jsval \<Rightarrow> string \<Rightarrow> jsval \<Rightarrow> failure + jsval" where
  "js_set (JObj ps) k x = Inr (JObj (AList.update k x ps))"
| "js_set (JArr xs) k x = Inl Unmodelled"
| "js_set v k x = Inl TypeError"

text \<open>
  \<open>delete v.k\<close> for a named key: it throws on \<open>null\<close> and \<open>undefined\<close>, removes the
  key of an object and leaves every other value as it is.
\<close>

fun js_delete :: "jsval \<Rightarrow> string \<Rightarrow> failure + jsval" where
  "js_delete JUndefined k = Inl TypeError"
| "js_delete JNull k = Inl TypeError"
| "js_delete (JObj ps) k = Inr (JObj (AList.delete k ps))"
| "js_delete v k = Inr v"


section \<open>The client service\<close>

text \<open>
  \<open>ApiClient\<close> is the node API library (\<open>@arkecosystem/client\<close>), which is not part of
  the repository. The model records what the service hands to it: the connection and
  the version. \<open>new ApiClient('http://')\<close> passes a connection and no version.
\<close>

record api_client =
  http_host :: jsval
  api_version :: jsval

definition new_ApiClient :: "jsval \<Rightarrow> api_client" where
  "new_ApiClient h = \<lparr>http_host = h, api_version = JUndefined\<rparr>"

definition setConnection :: "jsval \<Rightarrow> api_client \<Rightarrow> api_client" where
  "setConnection h c = c\<lparr>http_host := h\<rparr>"

definition setVersion :: "jsval \<Rightarrow> api_client \<Rightarrow> api_client" where
  "setVersion v c = c\<lparr>api_version := v\<rparr>"

text \<open>
  \<open>ClientService\<close>: the fields \<open>this.__host\<close>, \<open>this.__version\<close> and \<open>this.client\<close>.
\<close>

record client_service =
  priv_host :: jsval
  priv_version :: jsval
  client :: api_client

text \<open>
  A call \<open>this.client.resource(name).method(args)\<close>, and the collaborators a fetch
  reads: the awaited call itself, which resolves with a response or rejects (it sees the
  connection the client holds when the call is made), the getter \<open>session/network\<close> of
  the store, and the date parser \<open>dayjs\<close> (milliseconds since the epoch, or \<open>None\<close> for
  an invalid date).
\<close>

datatype request = Request string string "jsval list"

record env =
  resource :: "api_client \<Rightarrow> request \<Rightarrow> failure + jsval"
  session_network :: jsval
  dayjs :: "jsval \<Rightarrow> int option"

subsection \<open>fetchWallet\<close>

text \<open>
  The v1 branch of \<open>fetchWallet\<close> once \<open>data.success\<close> is truthy: the account becomes
  the wallet, \<open>isDelegate\<close> is \<open>username !== null\<close>, and the five legacy keys are deleted.
\<close>

definition v1_wallet :: "jsval \<Rightarrow> failure + jsval" where
  "v1_wallet data =
     and_then (js_get data ''account'') (\<lambda>account.
     and_then (js_get account ''username'') (\<lambda>username.
     and_then (js_set account ''isDelegate'' (JBool (\<not> js_strict_eq username JNull))) (\<lambda>w1.
     and_then (js_delete w1 ''unconfirmedBalance'') (\<lambda>w2.
     and_then (js_delete w2 ''unconfirmedSignature'') (\<lambda>w3.
     and_then (js_delete w3 ''secondSignature'') (\<lambda>w4.
     and_then (js_delete w4 ''multisignatures'') (\<lambda>w5.
     js_delete w5 ''u_multisignatures'')))))))"

text \<open>\<open>if (walletData) { walletData.balance = parseInt(walletData.balance) }\<close>\<close>

definition parse_balance :: "jsval \<Rightarrow> failure + jsval" where
  "parse_balance walletData =
     (if truthy walletData
      then and_then (js_get walletData ''balance'') (\<lambda>b. js_set walletData ''balance'' (parseInt b))
      else Inr walletData)"

text \<open>
  \<open>fetchWallet(address)\<close>: the requests it sends, and what it returns or throws.
\<close>

definition fetchWallet :: "client_service \<Rightarrow> env \<Rightarrow> string \<Rightarrow> request list \<times> (failure + jsval)" where
  "fetchWallet cs e address =
     (if js_strict_eq (priv_version cs) (JNum 2)
      then (let req = Request ''wallets'' ''get'' [JStr address] in
            ([req],
             and_then (resource e (client cs) req) (\<lambda>response.
             and_then (js_get response ''data'') (\<lambda>data.
             and_then (js_get data ''data'') parse_balance))))
      else (let req = Request ''accounts'' ''get'' [JStr address] in
            ([req],
             and_then (resource e (client cs) req) (\<lambda>response.
             and_then (js_get response ''data'') (\<lambda>data.
             and_then (js_get data ''success'') (\<lambda>success.
             and_then (if truthy success then v1_wallet data else Inr JNull) parse_balance))))))"



subsection \<open>fetchDelegates and fetchDelegateForged\<close>

text \<open>
  \<open>v.map(f)\<close>: only an array has \<open>map\<close>; the callback runs on the elements in order
  and the first exception ends the call.
\<close>

fun array_map :: "(jsval \<Rightarrow> failure + 'a) \<Rightarrow> jsval \<Rightarrow> failure + 'a list" where
  "array_map f (JArr xs) = map_result f xs"
| "array_map f v = Inl TypeError"

text \<open>
  The own enumerable properties an object spread \<open>{...v}\<close> copies: nothing for
  \<open>null\<close>, \<open>undefined\<close>, booleans and numbers, the indices for arrays and strings.
\<close>

fun spread :: "jsval \<Rightarrow> props" where
  "spread (JObj ps) = ps"
| "spread (JArr xs) = index_props xs"
| "spread (JStr s) = index_props (map (\<lambda>c. JStr [c]) s)"
| "spread v = []"

text \<open>The callback of \<open>data.delegates.map\<close> in the v1 branch of \<open>fetchDelegates\<close>.\<close>

definition v1_delegate :: "jsval \<Rightarrow> failure + jsval" where
  "v1_delegate delegate =
     and_then (js_get delegate ''approval'') (\<lambda>approval.
     and_then (js_get delegate ''productivity'') (\<lambda>productivity.
     and_then (js_get delegate ''producedblocks'') (\<lambda>producedblocks.
     and_then (js_get delegate ''missedblocks'') (\<lambda>missedblocks.
     and_then (js_get delegate ''rate'') (\<lambda>rate.
     Inr (JObj
       (AList.update ''rank'' rate
       (AList.update ''blocks'' (JObj [(''produced'', producedblocks), (''missed'', missedblocks)])
       (AList.update ''production'' (JObj [(''approval'', approval), (''productivity'', productivity)])
       (spread delegate))))))))))"

definition fetchDelegates :: "client_service \<Rightarrow> env \<Rightarrow> request list \<times> (failure + jsval)" where
  "fetchDelegates cs e =
     (let req = Request ''delegates'' ''all'' [] in
      ([req],
       and_then (resource e (client cs) req) (\<lambda>response.
       and_then (js_get response ''data'') (\<lambda>data.
       if js_strict_eq (priv_version cs) (JNum 2) then js_get data ''data''
       else and_then (js_get data ''success'') (\<lambda>success.
            if truthy success
            then and_then (js_get data ''delegates'') (\<lambda>delegates.
                 and_then (array_map v1_delegate delegates) (\<lambda>ds. Inr (JArr ds)))
            else Inr (JArr []))))))"

definition fetchDelegateForged :: "client_service \<Rightarrow> env \<Rightarrow> jsval \<Rightarrow> request list \<times> (failure + jsval)" where
  "fetchDelegateForged cs e delegate =
     (case js_get delegate ''forged'' of
        Inl x \<Rightarrow> ([], Inl x)
      | Inr forged \<Rightarrow>
          if truthy forged then ([], js_get forged ''total'')
          else (case js_get delegate ''publicKey'' of
                  Inl x \<Rightarrow> ([], Inl x)
                | Inr publicKey \<Rightarrow>
                    (let req = Request ''delegates'' ''forged'' [publicKey] in
                     ([req],
                      and_then (resource e (client cs) req) (\<lambda>response.
                      and_then (js_get response ''data'') (\<lambda>data.
                      and_then (js_get data ''success'') (\<lambda>success.
                      if truthy success then js_get data ''forged'' else Inr (JNum 0))))))))"

subsection \<open>fetchTransactions\<close>

text \<open>
  The parameter \<open>{ page, limit, orderBy } = { page: 0, limit: 50, orderBy: 'timestamp:desc' }\<close>:
  the default object replaces the argument only when the argument is \<open>undefined\<close>
  (omitted); then the three names are read from whatever object stands there.
\<close>

definition default_query :: jsval where
  "default_query = JObj [(''page'', JNum 0), (''limit'', JNum 50), (''orderBy'', JStr ''timestamp:desc'')]"

definition destructure_query :: "jsval \<Rightarrow> failure + (jsval \<times> jsval \<times> jsval)" where
  "destructure_query query =
     (let q = (if query = JUndefined then default_query else query) in
      and_then (js_get q ''page'') (\<lambda>page.
      and_then (js_get q ''limit'') (\<lambda>limit.
      and_then (js_get q ''orderBy'') (\<lambda>orderBy.
      Inr (page, limit, orderBy)))))"

text \<open>
  A transaction as the client returns it: its \<open>timestamp\<close>, which the client replaces
  by a \<open>Date\<close> (milliseconds since the epoch, \<open>None\<close> for an invalid date), and all its
  other properties, which are values of the payload and of the model.
\<close>

record transaction =
  timestamp :: "int option"
  properties :: props

record transaction_page =
  transactions :: "transaction list"
  totalCount :: jsval

text \<open>
  The assignment \<open>tx.timestamp = d\<close>: \<open>tx\<close> must be an object, as for \<open>js_set\<close>.
\<close>

fun set_timestamp :: "jsval \<Rightarrow> int option \<Rightarrow> failure + transaction" where
  "set_timestamp (JObj ps) d = Inr \<lparr>timestamp = d, properties = AList.delete ''timestamp'' ps\<rparr>"
| "set_timestamp (JArr xs) d = Inl Unmodelled"
| "set_timestamp v d = Inl TypeError"

text \<open>
  \<open>dayjs(epoch).add(raw * 1000).toDate()\<close>: \<open>add\<close> with no unit adds milliseconds, and
  an invalid start or a \<open>NaN\<close> amount gives an invalid date.
\<close>

definition v1_date :: "env \<Rightarrow> jsval \<Rightarrow> jsval \<Rightarrow> int option" where
  "v1_date e epoch raw =
     (case (dayjs e epoch, js_mul raw (JNum 1000)) of
        (Some t, JNum n) \<Rightarrow> Some (t + n)
      | _ \<Rightarrow> None)"

text \<open>The callback of \<open>data.transactions.map\<close> in the v1 branch.\<close>

definition v1_transaction :: "env \<Rightarrow> jsval \<Rightarrow> failure + transaction" where
  "v1_transaction e tx =
     and_then (js_get (session_network e) ''constants'') (\<lambda>constants.
     and_then (js_get constants ''epoch'') (\<lambda>epoch.
     and_then (js_get tx ''timestamp'') (\<lambda>raw.
     and_then (set_timestamp tx (v1_date e epoch raw)) (\<lambda>t.
     (let f1 = AList.update ''sender'' (prop_get (properties t) ''senderId'') (properties t);
          f2 = AList.update ''recipient'' (prop_get f1 ''recipientId'') f1;
          f3 = AList.delete ''senderId'' f2;
          f4 = AList.delete ''recipientId'' f3
      in Inr (t\<lparr>properties := f4\<rparr>))))))"

text \<open>The callback of \<open>data.data.map\<close> in the v2 branch.\<close>

definition v2_transaction :: "env \<Rightarrow> jsval \<Rightarrow> failure + transaction" where
  "v2_transaction e tx =
     and_then (js_get tx ''timestamp'') (\<lambda>ts.
     and_then (js_get ts ''human'') (\<lambda>human.
     set_timestamp tx (dayjs e human)))"

text \<open>
  The last \<open>map\<close>, run on every transaction under either version: \<open>isSender\<close>,
  \<open>isReceiver\<close> and \<open>totalAmount\<close> are assigned in this order, each read seeing the
  assignments before it.
\<close>

definition add_utilities :: "string \<Rightarrow> transaction \<Rightarrow> transaction" where
  "add_utilities address tx =
     (let f1 = AList.update ''isSender''
                 (JBool (js_strict_eq (prop_get (properties tx) ''sender'') (JStr address))) (properties tx);
          f2 = AList.update ''isReceiver''
                 (JBool (js_strict_eq (prop_get f1 ''recipient'') (JStr address))) f1;
          f3 = AList.update ''totalAmount''
                 (js_add (prop_get f2 ''amount'') (prop_get f2 ''fee'')) f2
      in tx\<lparr>properties := f3\<rparr>)"

definition v1_query :: "string \<Rightarrow> jsval \<Rightarrow> jsval \<Rightarrow> jsval \<Rightarrow> jsval" where
  "v1_query address page limit orderBy =
     JObj [(''recipientId'', JStr address),
           (''senderId'', JStr address),
           (''orderBy'', orderBy),
           (''offset'', js_mul (js_sub page (JNum 1)) limit),
           (''limit'', limit)]"

definition v2_query :: "jsval \<Rightarrow> jsval \<Rightarrow> jsval" where
  "v2_query page limit = JObj [(''limit'', limit), (''page'', page)]"

definition fetchTransactions ::
  "client_service \<Rightarrow> env \<Rightarrow> string \<Rightarrow> jsval \<Rightarrow> request list \<times> (failure + transaction_page)" where
  "fetchTransactions cs e address query =
     (case destructure_query query of
        Inl x \<Rightarrow> ([], Inl x)
      | Inr (page, limit, orderBy) \<Rightarrow>
          if js_strict_eq (priv_version cs) (JNum 1)
          then (let req = Request ''transactions'' ''all'' [v1_query address page limit orderBy] in
                ([req],
                 and_then (resource e (client cs) req) (\<lambda>response.
                 and_then (js_get response ''data'') (\<lambda>data.
                 and_then (js_get data ''success'') (\<lambda>success.
                 and_then
                   (if truthy success
                    then and_then (js_get data ''transactions'') (\<lambda>ts.
                         and_then (array_map (v1_transaction e) ts) (\<lambda>txs.
                         and_then (js_get data ''count'') (\<lambda>count.
                         Inr (txs, parseInt count))))
                    else Inr ([], JNum 0))
                   (\<lambda>(txs, total).
                 Inr \<lparr>transactions = map (add_utilities address) txs, totalCount = total\<rparr>))))))
          else (let req = Request ''wallets'' ''transactions'' [JStr address, v2_query page limit] in
                ([req],
                 and_then (resource e (client cs) req) (\<lambda>response.
                 and_then (js_get response ''data'') (\<lambda>data.
                 and_then (js_get data ''data'') (\<lambda>ts.
                 and_then (array_map (v2_transaction e) ts) (\<lambda>txs.
                 and_then (js_get data ''meta'') (\<lambda>meta.
                 and_then (js_get meta ''totalCount'') (\<lambda>total.
                 Inr \<lparr>transactions = map (add_utilities address) txs, totalCount = total\<rparr>)))))))))"


subsection \<open>Building transactions\<close>

text \<open>
  \<open>transactionBuilder\<close> is the fluent builder of \<open>@arkecosystem/crypto\<close>, outside the
  repository. A draft is the sequence of builder calls the client makes on it, each with
  its arguments; \<open>getStruct\<close> is the last of them.
\<close>

datatype call = Call string "jsval list"

text \<open>
  \<open>if (passphrase) { sign(passphrase) } else if (wif) { signWithWif(wif) }\<close> and
  \<open>if (secondPassphrase) { secondSign(secondPassphrase) }\<close>.
\<close>

definition primary_sign :: "jsval \<Rightarrow> jsval \<Rightarrow> call list" where
  "primary_sign passphrase wif =
     (if truthy passphrase then [Call ''sign'' [passphrase]]
      else if truthy wif then [Call ''signWithWif'' [wif]]
      else [])"

definition second_sign :: "jsval \<Rightarrow> call list" where
  "second_sign secondPassphrase =
     (if truthy secondPassphrase then [Call ''secondSign'' [secondPassphrase]] else [])"

definition buildVote :: "jsval \<Rightarrow> failure + call list" where
  "buildVote arg =
     and_then (js_get arg ''votes'') (\<lambda>votes.
     and_then (js_get arg ''passphrase'') (\<lambda>passphrase.
     and_then (js_get arg ''secondPassphrase'') (\<lambda>secondPassphrase.
     and_then (js_get arg ''wif'') (\<lambda>wif.
     Inr ([Call ''vote'' [], Call ''votesAsset'' [votes]]
          @ primary_sign passphrase wif
          @ second_sign secondPassphrase
          @ [Call ''getStruct'' []])))))"

definition buildDelegateRegistration :: "jsval \<Rightarrow> failure + call list" where
  "buildDelegateRegistration arg =
     and_then (js_get arg ''username'') (\<lambda>username.
     and_then (js_get arg ''passphrase'') (\<lambda>passphrase.
     and_then (js_get arg ''secondPassphrase'') (\<lambda>secondPassphrase.
     and_then (js_get arg ''wif'') (\<lambda>wif.
     Inr ([Call ''delegateRegistration'' [], Call ''usernameAsset'' [username]]
          @ primary_sign passphrase wif
          @ second_sign secondPassphrase
          @ [Call ''getStruct'' []])))))"

definition buildTransfer :: "jsval \<Rightarrow> failure + call list" where
  "buildTransfer arg =
     and_then (js_get arg ''amount'') (\<lambda>amount.
     and_then (js_get arg ''recipientId'') (\<lambda>recipientId.
     and_then (js_get arg ''vendorField'') (\<lambda>vendorField.
     and_then (js_get arg ''passphrase'') (\<lambda>passphrase.
     and_then (js_get arg ''secondPassphrase'') (\<lambda>secondPassphrase.
     and_then (js_get arg ''wif'') (\<lambda>wif.
     Inr ([Call ''transfer'' [], Call ''amount'' [amount], Call ''recipientId'' [recipientId],
           Call ''vendorField'' [vendorField]]
          @ primary_sign passphrase wif
          @ second_sign secondPassphrase
          @ [Call ''getStruct'' []])))))))"

definition buildSecondSignatureRegistration :: "jsval \<Rightarrow> failure + call list" where
  "buildSecondSignatureRegistration arg =
     and_then (js_get arg ''passphrase'') (\<lambda>passphrase.
     and_then (js_get arg ''secondPassphrase'') (\<lambda>secondPassphrase.
     and_then (js_get arg ''wif'') (\<lambda>wif.
     Inr ([Call ''secondSignature'' [], Call ''signatureAsset'' [secondPassphrase]]
          @ primary_sign passphrase wif
          @ [Call ''getStruct'' []]))))"

text \<open>The signing calls of a draft, counted by the name of the builder method.\<close>

fun call_name :: "call \<Rightarrow> string" where
  "call_name (Call n args) = n"

definition primary_signs :: "call list \<Rightarrow> call list" where
  "primary_signs cs = filter (\<lambda>c. call_name c = ''sign'' \<or> call_name c = ''signWithWif'') cs"

definition second_signs :: "call list \<Rightarrow> call list" where
  "second_signs cs = filter (\<lambda>c. call_name c = ''secondSign'') cs"

subsection \<open>The connection binding and the profile watcher\<close>

text \<open>The accessors \<open>get host\<close>, \<open>set host\<close>, \<open>get version\<close>, \<open>set version\<close>.\<close>

definition host :: "client_service \<Rightarrow> jsval" where
  "host cs = priv_host cs"

definition set_host :: "jsval \<Rightarrow> client_service \<Rightarrow> client_service" where
  "set_host h cs = cs\<lparr>priv_host := h, client := setConnection h (client cs)\<rparr>"

definition version :: "client_service \<Rightarrow> jsval" where
  "version cs = priv_version cs"

definition set_version :: "jsval \<Rightarrow> client_service \<Rightarrow> client_service" where
  "set_version apiVersion cs =
     cs\<lparr>priv_version := apiVersion, client := setVersion apiVersion (client cs)\<rparr>"

text \<open>
  The store, as the watcher reads it: the getters \<open>session/profile\<close>, \<open>network/byId\<close>
  and \<open>peer/current\<close>.
\<close>

record store =
  session_profile :: jsval
  network_byId :: "jsval \<Rightarrow> jsval"
  peer_current :: jsval

text \<open>\<open>Object.keys(v)\<close> of a value that is not \<open>null\<close> or \<open>undefined\<close>.\<close>

definition object_keys :: "jsval \<Rightarrow> string list" where
  "object_keys v = map fst (spread v)"

text \<open>
  \<open>v.match(pattern) ? 2 : 1\<close>, the pattern being a 2 and a dot at the start of the
  string: only a string has \<open>match\<close>, and the match is an array (truthy) or \<open>null\<close>.
\<close>

fun version_of :: "jsval \<Rightarrow> failure + jsval" where
  "version_of (JStr s) = Inr (if take 2 s = ''2.'' then JNum 2 else JNum 1)"
| "version_of v = Inl TypeError"

text \<open>
  What a run of the watcher's callback leaves: the service, the events emitted on the
  event bus, and the exception that ended the callback, if one did.
\<close>

record watch_result =
  service :: client_service
  emitted :: "string list"
  thrown :: "failure option"

definition stopped :: "client_service \<Rightarrow> failure \<Rightarrow> watch_result" where
  "stopped cs x = \<lparr>service = cs, emitted = [], thrown = Some x\<rparr>"

definition or_stop :: "client_service \<Rightarrow> failure + 'a \<Rightarrow> ('a \<Rightarrow> watch_result) \<Rightarrow> watch_result" where
  "or_stop cs r k = (case r of Inl x \<Rightarrow> stopped cs x | Inr v \<Rightarrow> k v)"

text \<open>
  The callback that \<open>__watchProfile\<close> registers, run on a value of \<open>session/profile\<close>.
  An exception ends it where it is raised, with the service as bound so far.
\<close>

definition on_profile :: "store \<Rightarrow> jsval \<Rightarrow> client_service \<Rightarrow> watch_result" where
  "on_profile st profile cs =
     (if \<not> truthy profile then \<lparr>service = cs, emitted = [], thrown = None\<rparr>
      else
        or_stop cs (js_get profile ''networkId'') (\<lambda>networkId.
        let network = network_byId st networkId in
        or_stop cs (js_get network ''server'') (\<lambda>server.
        or_stop cs (js_get network ''apiVersion'') (\<lambda>apiVersion.
        let currentPeer = peer_current st in
        if truthy currentPeer \<and> length (object_keys currentPeer) > 0
        then
          or_stop cs (js_get currentPeer ''ip'') (\<lambda>ip.
          or_stop cs (js_get currentPeer ''port'') (\<lambda>port.
          let cs1 = set_host (JStr (''http://'' @ js_to_string ip @ '':'' @ js_to_string port)) cs in
          or_stop cs1 (js_get currentPeer ''version'') (\<lambda>v.
          or_stop cs1 (version_of v) (\<lambda>n.
          \<lparr>service = set_version n cs1, emitted = [''client:changed''], thrown = None\<rparr>))))
        else
          \<lparr>service = set_version apiVersion (set_host server cs),
           emitted = [''client:changed''], thrown = None\<rparr>))))"

text \<open>
  \<open>__watchProfile()\<close>: \<open>store.watch\<close> registers the callback on the getter
  \<open>session/profile\<close>, and \<open>immediate: true\<close> runs it at once on the current profile.
  Every later change of the profile is another run of \<open>on_profile\<close>.
\<close>

definition watchProfile :: "store \<Rightarrow> client_service \<Rightarrow> watch_result" where
  "watchProfile st cs = on_profile st (session_profile st) cs"

text \<open>The constructor, \<open>constructor (watchProfile = true)\<close>.\<close>

definition new_ClientService :: "bool \<Rightarrow> store \<Rightarrow> watch_result" where
  "new_ClientService watch st =
     (let cs = \<lparr>priv_host = JNull, priv_version = JNull, client = new_ApiClient (JStr ''http://'')\<rparr> in
      if watch then watchProfile st cs
      else \<lparr>service = cs, emitted = [], thrown = None\<rparr>)"

section \<open>The peer system\<close>

text \<open>
  The actions of \<open>store/modules/peer/system.js\<close> only dispatch other actions. A
  dispatch is its type, its payload and its options (\<open>undefined\<close> when not given). The
  actions of the other modules are not in the repository: a handler says, from the
  dispatches made so far and the one being made, whether its promise resolves (with a
  value) or rejects (with an error).
\<close>

datatype dispatch = Dispatch string jsval jsval

datatype outcome = Resolves jsval | Rejects jsval

type_synonym handler = "dispatch list \<Rightarrow> dispatch \<Rightarrow> outcome"

text \<open>
  \<open>system/clear\<close>: \<open>peers/clear\<close> and \<open>current/clear\<close> are dispatched without \<open>await\<close>,
  so their promises are dropped and a rejection of theirs reaches nobody here;
  \<open>peers/connectToBest\<close> is awaited, so its rejection is thrown from \<open>system/clear\<close>. The
  result is the dispatches made so far and the error thrown, if any.
\<close>

definition system_clear :: "handler \<Rightarrow> dispatch list \<Rightarrow> dispatch list \<times> jsval option" where
  "system_clear h sofar =
     (let d1 = Dispatch ''peers/clear'' JUndefined JUndefined;
          d2 = Dispatch ''current/clear'' JUndefined JUndefined;
          d3 = Dispatch ''peers/connectToBest'' (JObj [(''skipIfCustom'', JBool False)]) JUndefined
      in (sofar @ [d1, d2, d3],
          case h (sofar @ [d1, d2]) d3 of Resolves v \<Rightarrow> None | Rejects x \<Rightarrow> Some x))"

text \<open>
  \<open>await dispatch('system/clear'); await dispatch('peers/refresh')\<close>, as \<open>update\<close> runs
  it in both of its recovery paths. \<open>system/clear\<close> is the action above.
\<close>

definition clear_and_refresh :: "handler \<Rightarrow> dispatch list \<Rightarrow> dispatch list \<times> jsval option" where
  "clear_and_refresh h sofar =
     (case system_clear h (sofar @ [Dispatch ''system/clear'' JUndefined JUndefined]) of
        (ds, Some x) \<Rightarrow> (ds, Some x)
      | (ds, None) \<Rightarrow>
          (let d = Dispatch ''peers/refresh'' JUndefined JUndefined in
           (ds @ [d], case h ds d of Resolves v \<Rightarrow> None | Rejects x \<Rightarrow> Some x)))"

record run =
  dispatched :: "dispatch list"
  logged :: "jsval list"
  escaped :: "jsval option"

text \<open>\<open>update\<close>, given the handler and the value of the getter \<open>current/current\<close>.\<close>

definition update :: "handler \<Rightarrow> jsval \<Rightarrow> run" where
  "update h peer =
     (if \<not> truthy peer
      then (let (ds, x) = clear_and_refresh h [] in \<lparr>dispatched = ds, logged = [], escaped = x\<rparr>)
      else (let d1 = Dispatch ''peer/update'' peer JUndefined in
            case h [] d1 of
              Rejects error \<Rightarrow>
                (let (ds, x) = clear_and_refresh h [d1] in
                 \<lparr>dispatched = ds, logged = [error], escaped = x\<rparr>)
            | Resolves peer' \<Rightarrow>
                (let d2 = Dispatch ''peer/current/set'' (JObj [(''peer'', peer')])
                            (JObj [(''root'', JBool True)]) in
                 case h [d1] d2 of
                   Rejects error \<Rightarrow>
                     (let (ds, x) = clear_and_refresh h [d1, d2] in
                      \<lparr>dispatched = ds, logged = [error], escaped = x\<rparr>)
                 | Resolves v \<Rightarrow> \<lparr>dispatched = [d1, d2], logged = [], escaped = None\<rparr>)))"


section \<open>Concrete inputs\<close>

text \<open>
  A service bound to a host and a version through its setters, and a node that answers
  every call with the same body.
\<close>

definition unbound :: client_service where
  "unbound = \<lparr>priv_host = JNull, priv_version = JNull, client = new_ApiClient (JStr ''http://'')\<rparr>"

definition bound_to :: "jsval \<Rightarrow> client_service" where
  "bound_to v = set_version v (set_host (JStr ''http://127.0.0.1:4003'') unbound)"

definition mainnet :: jsval where
  "mainnet = JObj [(''constants'', JObj [(''epoch'', JStr ''2017-03-21T13:00:00.000Z'')])]"

definition answering :: "jsval \<Rightarrow> env" where
  "answering body =
     \<lparr>resource = (\<lambda>c r. Inr (JObj [(''data'', body)])),
      session_network = mainnet,
      dayjs = (\<lambda>v. if v = JStr ''2017-03-21T13:00:00.000Z'' then Some 1490101200000 else None)\<rparr>"

text \<open>
  The v1 answer of the comment above \<open>fetchWallet\<close> in the source: the account of an
  address that is not a delegate.
\<close>

definition documented_v1_account :: props where
  "documented_v1_account =
     [(''address'', JStr ''ANQYF8y8PBmg67hSGCA7e67d84sgm8zH3k''),
      (''unconfirmedBalance'', JStr ''243884095406''),
      (''balance'', JStr ''243884095406''),
      (''publicKey'', JNull),
      (''unconfirmedSignature'', JNum 0),
      (''secondSignature'', JNum 0),
      (''secondPublicKey'', JNull),
      (''multisignatures'', JArr []),
      (''u_multisignatures'', JArr [])]"

definition documented_v1_body :: jsval where
  "documented_v1_body = JObj [(''success'', JBool True), (''account'', JObj documented_v1_account)]"





text \<open>
  A v1 answer with two transactions of \<open>ADDR1\<close>, one sent and one received, and what
  \<open>fetchTransactions\<close> makes of them.
\<close>

definition two_transactions_body :: jsval where
  "two_transactions_body =
     JObj [(''success'', JBool True),
           (''transactions'', JArr
              [JObj [(''id'', JStr ''t1''), (''timestamp'', JNum 100),
                     (''senderId'', JStr ''ADDR1''), (''recipientId'', JStr ''ADDR2''),
                     (''amount'', JNum 1000), (''fee'', JNum 10)],
               JObj [(''id'', JStr ''t2''), (''timestamp'', JNum 200),
                     (''senderId'', JStr ''ADDR3''), (''recipientId'', JStr ''ADDR1''),
                     (''amount'', JNum 5), (''fee'', JNum 1)]]),
           (''count'', JStr ''2'')]"



text \<open>A v1 answer that reports a failure, and a delegate with no cached forged total.\<close>

definition failed_v1_body :: jsval where
  "failed_v1_body = JObj [(''success'', JBool False), (''error'', JStr ''Delegate not found'')]"

definition a_delegate :: jsval where
  "a_delegate = JObj [(''username'', JStr ''genesis_1''), (''publicKey'', JStr ''02a1b2'')]"

text \<open>
  The transfer of the end-to-end scenario, signed with a passphrase, and the same
  transfer with neither a passphrase nor a WIF.
\<close>

definition signed_transfer :: jsval where
  "signed_transfer =
     JObj [(''amount'', JNum 100), (''recipientId'', JStr ''R1''), (''vendorField'', JStr ''memo''),
           (''passphrase'', JStr ''p'')]"

definition unsigned_transfer :: jsval where
  "unsigned_transfer =
     JObj [(''amount'', JNum 100), (''recipientId'', JStr ''R1''), (''vendorField'', JStr ''memo'')]"

text \<open>
  A store with an active profile on a v1 network and no peer selected, and the same
  store once a peer of version 2.1.0 is selected.
\<close>

definition devnet :: jsval where
  "devnet = JObj [(''id'', JStr ''ark.devnet''), (''server'', JStr ''https://dexplorer.ark.io:8443''),
                  (''apiVersion'', JNum 1)]"

definition a_profile :: jsval where
  "a_profile = JObj [(''name'', JStr ''main''), (''networkId'', JStr ''ark.devnet'')]"

definition a_peer :: jsval where
  "a_peer = JObj [(''ip'', JStr ''167.114.29.54''), (''port'', JNum 4003), (''version'', JStr ''2.1.0'')]"

definition no_peer_store :: store where
  "no_peer_store =
     \<lparr>session_profile = a_profile,
      network_byId = (\<lambda>i. if i = JStr ''ark.devnet'' then devnet else JUndefined),
      peer_current = JUndefined\<rparr>"

definition peer_store :: store where
  "peer_store = no_peer_store\<lparr>peer_current := a_peer\<rparr>"

definition no_profile_store :: store where
  "no_profile_store = no_peer_store\<lparr>session_profile := JNull\<rparr>"




section \<open>Properties of the value model\<close>

lemma and_then_Inr: "and_then r f = Inr y \<longleftrightarrow> (\<exists>v. r = Inr v \<and> f v = Inr y)"
  by (cases r) (simp_all add: and_then_def)

lemma and_then_simps [simp]: "and_then (Inr v) f = f v" "and_then (Inl x) f = Inl x"
  by (simp_all add: and_then_def)

lemma js_set_Inr: "js_set v k x = Inr w \<longleftrightarrow> (\<exists>ps. v = JObj ps \<and> w = JObj (AList.update k x ps))"
  by (cases v) auto

lemma strict_eq_null: "js_strict_eq v JNull \<longleftrightarrow> v = JNull"
  by (cases v) auto


lemma strict_eq_num: "js_strict_eq v (JNum n) \<longleftrightarrow> v = JNum n"
  by (cases v) auto

lemma prop_get_update: "prop_get (AList.update k v ps) k' = (if k' = k then v else prop_get ps k')"
  by (simp add: prop_get_def update_conv')

lemma prop_get_delete: "prop_get (AList.delete k ps) k' = (if k' = k then JUndefined else prop_get ps k')"
  by (simp add: prop_get_def delete_conv')

lemma has_key_update: "has_key (AList.update k v ps) k' \<longleftrightarrow> k' = k \<or> has_key ps k'"
  by (simp add: has_key_def update_conv')

lemma has_key_delete: "has_key (AList.delete k ps) k' \<longleftrightarrow> k' \<noteq> k \<and> has_key ps k'"
  by (simp add: has_key_def delete_conv')

lemma prop_get_absent: "\<not> has_key ps k \<Longrightarrow> prop_get ps k = JUndefined"
  by (simp add: has_key_def prop_get_def)

subsection \<open>Printing and reading decimal digits\<close>













section \<open>Properties of fetchWallet\<close>

lemma v1_wallet_Inr:
  "v1_wallet data = Inr w \<longleftrightarrow>
     (\<exists>acc. js_get data ''account'' = Inr (JObj acc) \<and>
        w = JObj (AList.delete ''u_multisignatures'' (AList.delete ''multisignatures''
              (AList.delete ''secondSignature'' (AList.delete ''unconfirmedSignature''
              (AList.delete ''unconfirmedBalance''
              (AList.update ''isDelegate'' (JBool (prop_get acc ''username'' \<noteq> JNull)) acc)))))))"
proof -
  have "v1_wallet data = Inr w \<longleftrightarrow>
    (\<exists>account. js_get data ''account'' = Inr account \<and>
       (\<exists>acc. account = JObj acc \<and>
        w = JObj (AList.delete ''u_multisignatures'' (AList.delete ''multisignatures''
              (AList.delete ''secondSignature'' (AList.delete ''unconfirmedSignature''
              (AList.delete ''unconfirmedBalance''
              (AList.update ''isDelegate'' (JBool (prop_get acc ''username'' \<noteq> JNull)) acc))))))))"
    unfolding v1_wallet_def and_then_Inr
    apply (rule ex_cong1)
    apply (rule conj_cong [OF refl])
    subgoal for account
      by (cases account) (auto simp: strict_eq_null)
    done
  then show ?thesis by auto
qed


subsection \<open>The shape and the balance of the wallet\<close>

lemma fetchWallet_v1_shape:
  assumes v1: "priv_version cs \<noteq> JNum 2"
    and answer: "resource e (client cs) (Request ''accounts'' ''get'' [JStr address]) = Inr response"
    and body: "js_get response ''data'' = Inr data"
    and success: "js_get data ''success'' = Inr s" "truthy s"
    and account: "js_get data ''account'' = Inr (JObj acc)"
  shows "\<exists>ps. snd (fetchWallet cs e address) = Inr (JObj ps)
          \<and> prop_get ps ''isDelegate'' = JBool (prop_get acc ''username'' \<noteq> JNull)
          \<and> \<not> has_key ps ''unconfirmedBalance'' \<and> \<not> has_key ps ''unconfirmedSignature''
          \<and> \<not> has_key ps ''secondSignature'' \<and> \<not> has_key ps ''multisignatures''
          \<and> \<not> has_key ps ''u_multisignatures''"
proof -
  let ?w = "AList.delete ''u_multisignatures'' (AList.delete ''multisignatures''
              (AList.delete ''secondSignature'' (AList.delete ''unconfirmedSignature''
              (AList.delete ''unconfirmedBalance''
              (AList.update ''isDelegate'' (JBool (prop_get acc ''username'' \<noteq> JNull)) acc)))))"
  have shaped: "v1_wallet data = Inr (JObj ?w)"
    using account by (simp add: v1_wallet_Inr)
  have "snd (fetchWallet cs e address) =
          Inr (JObj (AList.update ''balance'' (parseInt (prop_get ?w ''balance'')) ?w))"
    using v1 answer body success shaped
    by (simp add: fetchWallet_def strict_eq_num parse_balance_def Let_def)
  then show ?thesis
    by (simp add: prop_get_update prop_get_delete has_key_update has_key_delete)
qed

text \<open>
  C1. On the v1 answer that the source's own comment documents, an account with no
  \<open>username\<close> key, \<open>fetchWallet\<close> returns \<open>isDelegate: true\<close>: \<open>undefined !== null\<close>
  holds. The legacy keys are gone and the balance is parsed.
\<close>

theorem fetchWallet_documented_v1_account:
  "\<not> has_key documented_v1_account ''username'' \<and>
   snd (fetchWallet (bound_to (JNum 1)) (answering documented_v1_body)
          ''ANQYF8y8PBmg67hSGCA7e67d84sgm8zH3k'') =
     Inr (JObj [(''address'', JStr ''ANQYF8y8PBmg67hSGCA7e67d84sgm8zH3k''),
                (''balance'', JNum 243884095406),
                (''publicKey'', JNull),
                (''secondPublicKey'', JNull),
                (''isDelegate'', JBool True)])"
  by code_simp




section \<open>Properties of fetchTransactions\<close>

lemma destructure_default:
  "destructure_query JUndefined = Inr (JNum 0, JNum 50, JStr ''timestamp:desc'')"
  by (simp add: destructure_query_def default_query_def prop_get_def)

lemma destructure_object:
  "destructure_query (JObj q) = Inr (prop_get q ''page'', prop_get q ''limit'', prop_get q ''orderBy'')"
  by (simp add: destructure_query_def)



lemma js_mul_undefined: "js_mul x JUndefined = JNaN"
  by (simp add: js_mul_def split: option.splits)




text \<open>
  C7. Under version 1, with \<open>page\<close> and \<open>limit\<close> supplied as numbers, the query sent
  to \<open>transactions.all\<close> has \<open>offset = (page - 1) * limit\<close>; for page 0 that is the
  negative offset \<open>- limit\<close>, sent as it is.
\<close>

theorem fetchTransactions_v1_offset:
  assumes "priv_version cs = JNum 1"
    and "prop_get q ''page'' = JNum p" and "prop_get q ''limit'' = JNum l"
  shows "fst (fetchTransactions cs e address (JObj q)) =
           [Request ''transactions'' ''all''
              [JObj [(''recipientId'', JStr address), (''senderId'', JStr address),
                     (''orderBy'', prop_get q ''orderBy''),
                     (''offset'', JNum ((p - 1) * l)),
                     (''limit'', JNum l)]]]
       \<and> (p = 0 \<longrightarrow>
           fst (fetchTransactions cs e address (JObj q)) =
           [Request ''transactions'' ''all''
              [JObj [(''recipientId'', JStr address), (''senderId'', JStr address),
                     (''orderBy'', prop_get q ''orderBy''),
                     (''offset'', JNum (- l)),
                     (''limit'', JNum l)]]])"
  using assms
  by (simp add: fetchTransactions_def destructure_object Let_def v1_query_def js_mul_def js_sub_def)

text \<open>
  Page 0 with limit 50 under version 1: the offset sent is -50.
\<close>

theorem fetchTransactions_v1_offset_witness:
  "priv_version (bound_to (JNum 1)) = JNum 1
   \<and> prop_get [(''page'', JNum 0), (''limit'', JNum 50)] ''page'' = JNum 0
   \<and> prop_get [(''page'', JNum 0), (''limit'', JNum 50)] ''limit'' = JNum 50
   \<and> fst (fetchTransactions (bound_to (JNum 1)) (answering two_transactions_body) ''ADDR1''
            (JObj [(''page'', JNum 0), (''limit'', JNum 50)])) =
       [Request ''transactions'' ''all''
          [JObj [(''recipientId'', JStr ''ADDR1''), (''senderId'', JStr ''ADDR1''),
                 (''orderBy'', JUndefined), (''offset'', JNum (- 50)), (''limit'', JNum 50)]]]"
proof -
  have v: "priv_version (bound_to (JNum 1)) = JNum 1" by code_simp
  have p: "prop_get [(''page'', JNum 0), (''limit'', JNum 50)] ''page'' = JNum 0" by code_simp
  have l: "prop_get [(''page'', JNum 0), (''limit'', JNum 50)] ''limit'' = JNum 50" by code_simp
  have ob: "prop_get [(''page'', JNum 0), (''limit'', JNum 50)] ''orderBy'' = JUndefined" by code_simp
  from fetchTransactions_v1_offset [OF v p l, of "answering two_transactions_body" "''ADDR1''"] v p l ob
  show ?thesis by simp
qed

text \<open>
  C10. The defaults \<open>page: 0\<close>, \<open>limit: 50\<close>, \<open>orderBy: 'timestamp:desc'\<close> are those of
  the query sent only when the query argument is omitted. For a query object that is
  supplied, each of the three is whatever the object holds under that name, so a name
  the object lacks is sent as \<open>undefined\<close>; without \<open>limit\<close> the v1 offset
  \<open>(page - 1) * limit\<close> is \<open>NaN\<close>.
\<close>

theorem fetchTransactions_defaults:
  "fst (fetchTransactions cs e address JUndefined) =
     (if priv_version cs = JNum 1
      then [Request ''transactions'' ''all''
              [JObj [(''recipientId'', JStr address), (''senderId'', JStr address),
                     (''orderBy'', JStr ''timestamp:desc''), (''offset'', JNum (- 50)),
                     (''limit'', JNum 50)]]]
      else [Request ''wallets'' ''transactions''
              [JStr address, JObj [(''limit'', JNum 50), (''page'', JNum 0)]]])
   \<and> fst (fetchTransactions cs e address (JObj q)) =
     (if priv_version cs = JNum 1
      then [Request ''transactions'' ''all''
              [JObj [(''recipientId'', JStr address), (''senderId'', JStr address),
                     (''orderBy'', prop_get q ''orderBy''),
                     (''offset'', js_mul (js_sub (prop_get q ''page'') (JNum 1)) (prop_get q ''limit'')),
                     (''limit'', prop_get q ''limit'')]]]
      else [Request ''wallets'' ''transactions''
              [JStr address, JObj [(''limit'', prop_get q ''limit''), (''page'', prop_get q ''page'')]]])
   \<and> (\<not> has_key q ''page'' \<longrightarrow> prop_get q ''page'' = JUndefined)
   \<and> (\<not> has_key q ''orderBy'' \<longrightarrow> prop_get q ''orderBy'' = JUndefined)
   \<and> (\<not> has_key q ''limit'' \<longrightarrow>
        prop_get q ''limit'' = JUndefined
        \<and> js_mul (js_sub (prop_get q ''page'') (JNum 1)) (prop_get q ''limit'') = JNaN)"
proof -
  have "js_mul (js_sub (JNum 0) (JNum 1)) (JNum 50) = JNum (- 50)"
    by (simp add: js_mul_def js_sub_def)
  then show ?thesis
    by (simp add: fetchTransactions_def destructure_default destructure_object Let_def
        v1_query_def v2_query_def strict_eq_num prop_get_absent js_mul_undefined)
qed

text \<open>
  The query \<open>{page: 2}\<close> under version 1: \<open>orderBy\<close> and \<open>limit\<close> are sent as
  \<open>undefined\<close> and the offset as \<open>NaN\<close>.
\<close>

theorem fetchTransactions_defaults_witness:
  "\<not> has_key [(''page'', JNum 2)] ''limit''
   \<and> \<not> has_key [(''page'', JNum 2)] ''orderBy''
   \<and> fst (fetchTransactions (bound_to (JNum 1)) (answering two_transactions_body) ''ADDR1''
            (JObj [(''page'', JNum 2)])) =
       [Request ''transactions'' ''all''
          [JObj [(''recipientId'', JStr ''ADDR1''), (''senderId'', JStr ''ADDR1''),
                 (''orderBy'', JUndefined), (''offset'', JNaN), (''limit'', JUndefined)]]]"
proof -
  have v: "priv_version (bound_to (JNum 1)) = JNum 1" by code_simp
  have l: "\<not> has_key [(''page'', JNum 2)] ''limit''" by code_simp
  have ob: "\<not> has_key [(''page'', JNum 2)] ''orderBy''" by code_simp
  from fetchTransactions_defaults [of "bound_to (JNum 1)" "answering two_transactions_body"
      "''ADDR1''" "[(''page'', JNum 2)]"] v l ob
  show ?thesis by (simp add: js_mul_undefined)
qed

section \<open>Properties of the delegate queries\<close>

text \<open>
  C8. When the answer's \<open>success\<close> flag is falsy (false, or absent), nothing is thrown:
  \<open>fetchDelegates\<close>, under any version but 2, returns the empty list, and
  \<open>fetchDelegateForged\<close>, for a delegate with no cached \<open>forged\<close> total, returns 0.
\<close>

theorem soft_failure_sentinels:
  assumes flag: "js_get data ''success'' = Inr s" and failed: "\<not> truthy s"
    and body: "js_get response ''data'' = Inr data"
  shows "(priv_version cs \<noteq> JNum 2 \<longrightarrow>
            resource e (client cs) (Request ''delegates'' ''all'' []) = Inr response \<longrightarrow>
            snd (fetchDelegates cs e) = Inr (JArr []))
       \<and> (\<forall>forged publicKey.
            js_get delegate ''forged'' = Inr forged \<longrightarrow> \<not> truthy forged \<longrightarrow>
            js_get delegate ''publicKey'' = Inr publicKey \<longrightarrow>
            resource e (client cs) (Request ''delegates'' ''forged'' [publicKey]) = Inr response \<longrightarrow>
            snd (fetchDelegateForged cs e delegate) = Inr (JNum 0))"
  using assms
  by (simp add: fetchDelegates_def fetchDelegateForged_def Let_def strict_eq_num)


text \<open>
  A v1 answer \<open>{success: false, error: ...}\<close>: no delegates, and 0 forged.
\<close>

theorem soft_failure_sentinels_witness:
  "js_get failed_v1_body ''success'' = Inr (JBool False)
   \<and> \<not> truthy (JBool False)
   \<and> snd (fetchDelegates (bound_to (JNum 1)) (answering failed_v1_body)) = Inr (JArr [])
   \<and> snd (fetchDelegateForged (bound_to (JNum 1)) (answering failed_v1_body) a_delegate) = Inr (JNum 0)"
proof -
  let ?response = "JObj [(''data'', failed_v1_body)]"
  have flag: "js_get failed_v1_body ''success'' = Inr (JBool False)" by code_simp
  have failed: "\<not> truthy (JBool False)" by simp
  have body: "js_get ?response ''data'' = Inr failed_v1_body" by code_simp
  have v1: "priv_version (bound_to (JNum 1)) \<noteq> JNum 2" by code_simp
  have answer: "resource (answering failed_v1_body) c r = Inr ?response" for c r
    by (simp add: answering_def)
  have forged: "js_get a_delegate ''forged'' = Inr JUndefined" by code_simp
  have key: "js_get a_delegate ''publicKey'' = Inr (JStr ''02a1b2'')" by code_simp
  from soft_failure_sentinels [OF flag failed body, of "bound_to (JNum 1)"
      "answering failed_v1_body" a_delegate] v1 answer forged key flag
  show ?thesis by simp
qed

section \<open>Properties of the transaction builders\<close>

lemma js_get_any: "js_get v k = Inr x \<Longrightarrow> \<exists>y. js_get v k' = Inr y"
  by (cases v) simp_all

text \<open>
  C9. Each build operation applies at most one primary signing step: \<open>sign\<close> with the
  passphrase when a passphrase is supplied (truthy), otherwise \<open>signWithWif\<close> with the
  WIF when a WIF is supplied, and none when neither is. \<open>buildVote\<close>,
  \<open>buildDelegateRegistration\<close> and \<open>buildTransfer\<close> apply \<open>secondSign\<close> exactly when a
  second passphrase is supplied; \<open>buildSecondSignatureRegistration\<close> never does.
\<close>

theorem build_signing_steps:
  fixes arg p w sp :: jsval
  defines "primary \<equiv> (if truthy p then [Call ''sign'' [p]]
                       else if truthy w then [Call ''signWithWif'' [w]] else [])"
    and "second \<equiv> (if truthy sp then [Call ''secondSign'' [sp]] else [])"
  assumes "js_get arg ''passphrase'' = Inr p" and "js_get arg ''wif'' = Inr w"
    and "js_get arg ''secondPassphrase'' = Inr sp"
  shows "\<exists>v d t r.
           buildVote arg = Inr v \<and> primary_signs v = primary \<and> second_signs v = second
         \<and> buildDelegateRegistration arg = Inr d \<and> primary_signs d = primary \<and> second_signs d = second
         \<and> buildTransfer arg = Inr t \<and> primary_signs t = primary \<and> second_signs t = second
         \<and> buildSecondSignatureRegistration arg = Inr r \<and> primary_signs r = primary \<and> second_signs r = []"
proof -
  from assms(3) obtain votes username amount recipientId vendorField
    where "js_get arg ''votes'' = Inr votes" and "js_get arg ''username'' = Inr username"
      and "js_get arg ''amount'' = Inr amount" and "js_get arg ''recipientId'' = Inr recipientId"
      and "js_get arg ''vendorField'' = Inr vendorField"
    by (meson js_get_any)
  with assms(3-5) show ?thesis
    unfolding primary_def second_def
    by (simp add: buildVote_def buildDelegateRegistration_def buildTransfer_def
        buildSecondSignatureRegistration_def primary_sign_def second_sign_def
        primary_signs_def second_signs_def)
qed

text \<open>
  The transfer of the scenario, with a passphrase only: one \<open>sign\<close> call and no
  \<open>secondSign\<close>.
\<close>

theorem build_signing_steps_witness:
  "js_get signed_transfer ''passphrase'' = Inr (JStr ''p'')
   \<and> truthy (JStr ''p'')
   \<and> (\<exists>t. buildTransfer signed_transfer = Inr t
          \<and> primary_signs t = [Call ''sign'' [JStr ''p'']] \<and> second_signs t = [])"
proof -
  have p: "js_get signed_transfer ''passphrase'' = Inr (JStr ''p'')" by code_simp
  have w: "js_get signed_transfer ''wif'' = Inr JUndefined" by code_simp
  have sp: "js_get signed_transfer ''secondPassphrase'' = Inr JUndefined" by code_simp
  from build_signing_steps [OF p w sp] p show ?thesis by auto
qed

text \<open>
  The same transfer with neither a passphrase nor a WIF: the draft goes to \<open>getStruct\<close>
  with no signing call at all.
\<close>

theorem buildTransfer_unsigned:
  "buildTransfer unsigned_transfer =
     Inr [Call ''transfer'' [], Call ''amount'' [JNum 100], Call ''recipientId'' [JStr ''R1''],
          Call ''vendorField'' [JStr ''memo''], Call ''getStruct'' []]
   \<and> map_sum id primary_signs (buildTransfer unsigned_transfer) = Inr []"
  by code_simp

section \<open>Properties of the connection binding and the profile watcher\<close>

lemma binding_set_host:
  "host (set_host h cs) = h" "http_host (client (set_host h cs)) = h"
  "version (set_host h cs) = version cs" "api_version (client (set_host h cs)) = api_version (client cs)"
  by (simp_all add: host_def version_def set_host_def setConnection_def)

lemma binding_set_version:
  "version (set_version v cs) = v" "api_version (client (set_version v cs)) = v"
  "host (set_version v cs) = host cs" "http_host (client (set_version v cs)) = http_host (client cs)"
  by (simp_all add: host_def version_def set_version_def setVersion_def)

lemma unwatched: "service (new_ClientService False st) = unbound"
  by (simp add: new_ClientService_def unbound_def)

text \<open>
  C5. A client constructed without the watcher, or while no profile is active, reads
  \<open>null\<close> for both \<open>host\<close> and \<open>version\<close>; the placeholder \<open>http://\<close> is what the
  transport holds. Once a setter has run, \<open>host\<close> and \<open>version\<close> read the value that
  was set, which is also the value given to the transport, and neither setter changes
  what the other accessor reads.
\<close>

theorem binding_reads_what_was_set:
  "host (set_host h cs) = h \<and> http_host (client (set_host h cs)) = h
   \<and> version (set_host h cs) = version cs
   \<and> version (set_version v cs) = v \<and> api_version (client (set_version v cs)) = v
   \<and> host (set_version v cs) = host cs
   \<and> host (service (new_ClientService False st)) = JNull
   \<and> version (service (new_ClientService False st)) = JNull
   \<and> http_host (client (service (new_ClientService False st))) = JStr ''http://''
   \<and> (\<not> truthy (session_profile st) \<longrightarrow>
        new_ClientService True st = new_ClientService False st)"
  by (simp add: binding_set_host binding_set_version unwatched)
     (simp add: new_ClientService_def watchProfile_def on_profile_def unbound_def host_def version_def
       new_ApiClient_def)

text \<open>
  A store with no active profile: the watcher leaves the new client as the constructor
  made it.
\<close>

theorem binding_reads_what_was_set_witness:
  "\<not> truthy (session_profile no_profile_store)
   \<and> new_ClientService True no_profile_store = new_ClientService False no_profile_store
   \<and> host (set_host (JStr ''http://127.0.0.1:4003'') unbound) = JStr ''http://127.0.0.1:4003''
   \<and> version (set_version (JNum 2) unbound) = JNum 2"
proof -
  have "\<not> truthy (session_profile no_profile_store)" by code_simp
  with binding_reads_what_was_set [of "JStr ''http://127.0.0.1:4003''" unbound "JNum 2" no_profile_store]
  show ?thesis by simp
qed

text \<open>
  After construction with no active profile, and after construction without the
  watcher, \<open>host\<close> and \<open>version\<close> are \<open>null\<close>.
\<close>

theorem host_null_after_construction:
  "host (service (new_ClientService True no_profile_store)) = JNull
   \<and> version (service (new_ClientService True no_profile_store)) = JNull
   \<and> host (service (new_ClientService False peer_store)) = JNull
   \<and> version (service (new_ClientService False peer_store)) = JNull"
  by code_simp

text \<open>
  C6. On a change to an active profile whose network is registered: when a peer is
  selected (the getter gives a truthy value with at least one key) and its version is a
  string, the host is bound to \<open>http://ip:port\<close> of the peer and the version to 2 if
  the string begins with \<open>2.\<close> and to 1 otherwise; when no peer is selected, host and
  version are bound to the network's \<open>server\<close> and \<open>apiVersion\<close> as they are. Either
  way the transport receives the same two values and exactly one \<open>client:changed\<close> is
  emitted.
\<close>

theorem on_profile_binds:
  fixes st :: store and cs :: client_service and profile ip port :: jsval and v :: string
  defines "r \<equiv> on_profile st profile cs"
  assumes active: "truthy profile"
    and net: "js_get profile ''networkId'' = Inr networkId"
    and server: "js_get (network_byId st networkId) ''server'' = Inr server"
    and api: "js_get (network_byId st networkId) ''apiVersion'' = Inr apiVersion"
  shows "(truthy (peer_current st) \<and> object_keys (peer_current st) \<noteq> [] \<longrightarrow>
            js_get (peer_current st) ''ip'' = Inr ip \<longrightarrow>
            js_get (peer_current st) ''port'' = Inr port \<longrightarrow>
            js_get (peer_current st) ''version'' = Inr (JStr v) \<longrightarrow>
              host (service r) = JStr (''http://'' @ js_to_string ip @ '':'' @ js_to_string port)
            \<and> version (service r) = JNum (if take 2 v = ''2.'' then 2 else 1)
            \<and> http_host (client (service r)) = host (service r)
            \<and> api_version (client (service r)) = version (service r)
            \<and> emitted r = [''client:changed''] \<and> thrown r = None)
       \<and> (\<not> (truthy (peer_current st) \<and> object_keys (peer_current st) \<noteq> []) \<longrightarrow>
              host (service r) = server \<and> version (service r) = apiVersion
            \<and> http_host (client (service r)) = server
            \<and> api_version (client (service r)) = apiVersion
            \<and> emitted r = [''client:changed''] \<and> thrown r = None)"
  using active net server api unfolding r_def
  by (auto simp: on_profile_def or_stop_def Let_def binding_set_host binding_set_version)

text \<open>
  A profile on a v1 network: with the peer 167.114.29.54:4003 of version 2.1.0 selected
  the client is bound to that peer and to version 2; with no peer selected it is bound
  to the network's server and to version 1.
\<close>

theorem on_profile_binds_witness:
  "truthy a_profile
   \<and> js_get a_profile ''networkId'' = Inr (JStr ''ark.devnet'')
   \<and> truthy (peer_current peer_store) \<and> object_keys (peer_current peer_store) \<noteq> []
   \<and> js_get (peer_current peer_store) ''version'' = Inr (JStr ''2.1.0'')
   \<and> host (service (on_profile peer_store a_profile unbound)) = JStr ''http://167.114.29.54:4003''
   \<and> version (service (on_profile peer_store a_profile unbound)) = JNum 2
   \<and> emitted (on_profile peer_store a_profile unbound) = [''client:changed'']
   \<and> \<not> truthy (peer_current no_peer_store)
   \<and> host (service (on_profile no_peer_store a_profile unbound)) = JStr ''https://dexplorer.ark.io:8443''
   \<and> version (service (on_profile no_peer_store a_profile unbound)) = JNum 1
   \<and> emitted (on_profile no_peer_store a_profile unbound) = [''client:changed'']"
proof -
  have active: "truthy a_profile" by code_simp
  have net: "js_get a_profile ''networkId'' = Inr (JStr ''ark.devnet'')" by code_simp
  have server: "js_get (network_byId peer_store (JStr ''ark.devnet'')) ''server'' =
      Inr (JStr ''https://dexplorer.ark.io:8443'')" by code_simp
  have api: "js_get (network_byId peer_store (JStr ''ark.devnet'')) ''apiVersion'' = Inr (JNum 1)"
    by code_simp
  have server': "js_get (network_byId no_peer_store (JStr ''ark.devnet'')) ''server'' =
      Inr (JStr ''https://dexplorer.ark.io:8443'')" by code_simp
  have api': "js_get (network_byId no_peer_store (JStr ''ark.devnet'')) ''apiVersion'' = Inr (JNum 1)"
    by code_simp
  have selected: "truthy (peer_current peer_store)" "object_keys (peer_current peer_store) \<noteq> []"
    by code_simp+
  have ip: "js_get (peer_current peer_store) ''ip'' = Inr (JStr ''167.114.29.54'')" by code_simp
  have port: "js_get (peer_current peer_store) ''port'' = Inr (JNum 4003)" by code_simp
  have ver: "js_get (peer_current peer_store) ''version'' = Inr (JStr ''2.1.0'')" by code_simp
  have url: "''http://'' @ js_to_string (JStr ''167.114.29.54'') @ '':'' @ js_to_string (JNum 4003) =
      ''http://167.114.29.54:4003''" by code_simp
  have none: "\<not> truthy (peer_current no_peer_store)" by code_simp
  from on_profile_binds [OF active net server api, of "JStr ''167.114.29.54''" "JNum 4003" "''2.1.0''" unbound]
    selected ip port ver url
  have "host (service (on_profile peer_store a_profile unbound)) = JStr ''http://167.114.29.54:4003''
      \<and> version (service (on_profile peer_store a_profile unbound)) = JNum 2
      \<and> emitted (on_profile peer_store a_profile unbound) = [''client:changed'']"
    by simp
  moreover from on_profile_binds [OF active net server' api', of _ _ _ unbound] none
  have "host (service (on_profile no_peer_store a_profile unbound)) = JStr ''https://dexplorer.ark.io:8443''
      \<and> version (service (on_profile no_peer_store a_profile unbound)) = JNum 1
      \<and> emitted (on_profile no_peer_store a_profile unbound) = [''client:changed'']"
    by simp
  ultimately show ?thesis using active net selected ver none by simp
qed

section \<open>Properties of the peer system\<close>

lemma system_clear_dispatches:
  "fst (system_clear h sofar) =
     sofar @ [Dispatch ''peers/clear'' JUndefined JUndefined,
              Dispatch ''current/clear'' JUndefined JUndefined,
              Dispatch ''peers/connectToBest'' (JObj [(''skipIfCustom'', JBool False)]) JUndefined]"
  by (simp add: system_clear_def Let_def)






end
